theory Spec2Isabelle
  imports Main "HOL-Library.Word"
begin

section \<open>Data model of cmd/main.go\<close>

text \<open>
  Go's \<open>error\<close> values are carried as their message text. A call that returns
  \<open>(value, err)\<close> is a sum: \<open>Inl err\<close> when \<open>err != nil\<close>, \<open>Inr value\<close> otherwise.
\<close>

type_synonym go_error = string

text \<open>
  Modelled from the spec: the declaration of \<open>controller.NodeGroupOptions\<close> lives in
  pkg/controller, which is not part of the visible source. \<open>main\<close> reads the fields
  \<open>Name\<close> and \<open>DryMode\<close>; the spec (section 3) adds the minimum and maximum size as
  the group-specific scaling parameters.
\<close>

record NodeGroupOptions =
  Name :: string
  DryMode :: bool
  MinNodes :: int
  MaxNodes :: int

text \<open>
  \<open>controller.Opts\<close> as the composite literal of \<open>main\<close> fills it (lines 71 to 76).
  \<open>time.Duration\<close> is a 64-bit integer; the client handle is opaque (type \<open>'k\<close>).
  The field \<open>DryMode\<close> of \<open>Opts\<close> is written \<open>OptsDryMode\<close>, since the node group
  record already has a field of that name.
\<close>

record 'k Opts =
  ScanInterval :: "64 word"
  K8SClient :: 'k
  NodeGroups :: "NodeGroupOptions list"
  OptsDryMode :: bool

text \<open>
  The command-line flags after \<open>kingpin.Parse()\<close> (lines 19 to 26). \<open>kubeConfigFile\<close>
  is a pointer to a string and \<open>main\<close> tests it against \<open>nil\<close>: \<open>None\<close> is \<open>nil\<close>.
\<close>

record Flags =
  loglevel :: int
  addr :: string
  scanInterval :: "64 word"
  kubeConfigFile :: "string option"
  nodegroupConfigFile :: string
  drymode :: bool

datatype signal = SIGINT | SIGTERM

subsection \<open>Observable calls\<close>

text \<open>
  What \<open>main\<close> does to the outside world is recorded as a trace of events: every call of
  the logger (with its level, its structured field and its message) and every call of a
  collaborator. Whether logrus emits an entry depends on the configured level; the trace
  records the call.
\<close>

datatype level = FatalLevel | ErrorLevel | InfoLevel

datatype field = NoField | NodegroupField string | ErrorField go_error

datatype message =
    InvalidLogLevel int
  | StartingWithLogLevel int
  | UsingOutOfClusterConfig
  | UsingInClusterConfig
  | FailedToOpenConfigFile go_error
  | FailedToDecodeConfigFile go_error
  | ValidatingOptionsFail
  | FailedCheck
  | ProblemsWhenValidating nat string
  | ValidatingOptionsPass
  | RegisteredWithDrymode bool
  | SignalReceived signal
  | StoppingAutoscalerGracefully

datatype 'k event =
    Log level field message
  | CallSetLevel int
  | CallNewOutOfClusterClient string
  | CallNewInClusterClient
  | CallOsOpen string
  | CallUnmarshalNodeGroupOptions
  | CallValidateNodeGroup NodeGroupOptions
  | CallSignalNotify "signal list"
  | GoWatcher
  | CallMetricsStart string
  | CallNewController "'k Opts"
  | CallRunForever bool

text \<open>
  How the start-up ends: \<open>Exit n\<close> is \<open>os.Exit(n)\<close>, which \<open>log.Fatalf\<close> performs with
  \<open>n = 1\<close>; \<open>ClientFailed\<close> is a client constructor that did not return;
  \<open>InRunForever\<close> is \<open>main\<close> blocked inside \<open>c.RunForever(true)\<close>, its last statement.
\<close>

datatype outcome = Exit nat | ClientFailed | InRunForever

subsection \<open>Collaborators\<close>

text \<open>
  The functions \<open>main\<close> calls in other packages are parameters of the model. The client
  constructors return a bare handle in Go; the spec (section 4.1) says that they end the
  process themselves when resolution fails, which is \<open>None\<close> here. \<open>'f\<close> is the type of
  an open file.
\<close>

record ('k, 'f) Env =
  NewOutOfClusterClient :: "string \<Rightarrow> 'k option"
  NewInClusterClient :: "'k option"
  os_Open :: "string \<Rightarrow> go_error + 'f"
  UnmarshalNodeGroupOptions :: "'f \<Rightarrow> go_error + NodeGroupOptions list"
  ValidateNodeGroup :: "NodeGroupOptions \<Rightarrow> go_error list"

section \<open>The start-up sequence\<close>

text \<open>Lines 38 to 45: the choice of the client constructor.\<close>

definition resolveClient :: "('k, 'f) Env \<Rightarrow> Flags \<Rightarrow> 'k event list \<times> 'k option" where
  "resolveClient env fl =
     (if kubeConfigFile fl \<noteq> None \<and> length (the (kubeConfigFile fl)) > 0 then
        ([Log InfoLevel NoField UsingOutOfClusterConfig,
          CallNewOutOfClusterClient (the (kubeConfigFile fl))],
         NewOutOfClusterClient env (the (kubeConfigFile fl)))
      else
        ([Log InfoLevel NoField UsingInClusterConfig, CallNewInClusterClient],
         NewInClusterClient env))"

text \<open>
  Lines 60 to 65: the body of the \<open>if len(errs) > 0\<close> branch, which ends in
  \<open>Fatalf\<close>.
\<close>

definition reportFailure :: "Flags \<Rightarrow> NodeGroupOptions \<Rightarrow> go_error list \<Rightarrow> 'k event list" where
  "reportFailure fl nodegroup errs =
     [Log ErrorLevel (NodegroupField (Name nodegroup)) ValidatingOptionsFail]
     @ map (\<lambda>err. Log ErrorLevel (ErrorField err) FailedCheck) errs
     @ [Log FatalLevel (NodegroupField (Name nodegroup))
          (ProblemsWhenValidating (length errs) (nodegroupConfigFile fl))]"

text \<open>Lines 67 and 68: the two entries logged for a group that passed.\<close>

definition reportPass :: "Flags \<Rightarrow> NodeGroupOptions \<Rightarrow> 'k event list" where
  "reportPass fl nodegroup =
     [Log InfoLevel (NodegroupField (Name nodegroup)) ValidatingOptionsPass,
      Log InfoLevel (NodegroupField (Name nodegroup))
        (RegisteredWithDrymode (DryMode nodegroup \<or> drymode fl))]"

text \<open>
  Lines 58 to 69: the \<open>range\<close> loop over the node groups. The result is the trace of the
  loop and \<open>Some (Exit 1)\<close> when a \<open>Fatalf\<close> ended the process inside it, \<open>None\<close> when
  the loop ran to its end.
\<close>

fun validateLoop ::
  "(NodeGroupOptions \<Rightarrow> go_error list) \<Rightarrow> Flags \<Rightarrow> NodeGroupOptions list
     \<Rightarrow> 'k event list \<times> outcome option" where
  "validateLoop validate fl [] = ([], None)"
| "validateLoop validate fl (nodegroup # rest) =
     (let errs = validate nodegroup in
      if length errs > 0 then
        (CallValidateNodeGroup nodegroup # reportFailure fl nodegroup errs, Some (Exit 1))
      else
        (case validateLoop validate fl rest of
           (tr, r) \<Rightarrow> (CallValidateNodeGroup nodegroup # reportPass fl nodegroup @ tr, r)))"

text \<open>Lines 71 to 95: the options, the signal watcher, the metrics endpoint, the driver.\<close>

definition launch :: "Flags \<Rightarrow> 'k \<Rightarrow> NodeGroupOptions list \<Rightarrow> 'k event list" where
  "launch fl k8sClient nodegroups =
     (let opts = \<lparr>ScanInterval = scanInterval fl, K8SClient = k8sClient,
                  NodeGroups = nodegroups, OptsDryMode = drymode fl\<rparr>
      in [CallSignalNotify [SIGINT, SIGTERM], GoWatcher, CallMetricsStart (addr fl),
          CallNewController opts, CallRunForever True])"

text \<open>Lines 48 to 95: from opening the configuration file on.\<close>

definition loadAndRun :: "('k, 'f) Env \<Rightarrow> Flags \<Rightarrow> 'k \<Rightarrow> 'k event list \<times> outcome" where
  "loadAndRun env fl k8sClient =
     (case os_Open env (nodegroupConfigFile fl) of
        Inl err \<Rightarrow>
          ([CallOsOpen (nodegroupConfigFile fl),
            Log FatalLevel NoField (FailedToOpenConfigFile err)], Exit 1)
      | Inr configFile \<Rightarrow>
          (case UnmarshalNodeGroupOptions env configFile of
             Inl err \<Rightarrow>
               ([CallOsOpen (nodegroupConfigFile fl), CallUnmarshalNodeGroupOptions,
                 Log FatalLevel NoField (FailedToDecodeConfigFile err)], Exit 1)
           | Inr nodegroups \<Rightarrow>
               (case validateLoop (ValidateNodeGroup env) fl nodegroups of
                  (tr, Some oc) \<Rightarrow>
                    ([CallOsOpen (nodegroupConfigFile fl), CallUnmarshalNodeGroupOptions]
                     @ tr, oc)
                | (tr, None) \<Rightarrow>
                    ([CallOsOpen (nodegroupConfigFile fl), CallUnmarshalNodeGroupOptions]
                     @ tr @ launch fl k8sClient nodegroups, InRunForever))))"

text \<open>The function \<open>main\<close>, lines 28 to 96.\<close>

definition main :: "('k, 'f) Env \<Rightarrow> Flags \<Rightarrow> 'k event list \<times> outcome" where
  "main env fl =
     (if loglevel fl < 0 \<or> loglevel fl > 5 then
        ([Log FatalLevel NoField (InvalidLogLevel (loglevel fl))], Exit 1)
      else
        (case resolveClient env fl of
           (tc, None) \<Rightarrow>
             ([CallSetLevel (loglevel fl),
               Log InfoLevel NoField (StartingWithLogLevel (loglevel fl))] @ tc,
              ClientFailed)
         | (tc, Some k8sClient) \<Rightarrow>
             (case loadAndRun env fl k8sClient of
                (tr, oc) \<Rightarrow>
                  ([CallSetLevel (loglevel fl),
                    Log InfoLevel NoField (StartingWithLogLevel (loglevel fl))] @ tc @ tr,
                   oc))))"

subsection \<open>Reading a trace\<close>

fun isClientCall :: "'k event \<Rightarrow> bool" where
  "isClientCall (CallNewOutOfClusterClient p) = True"
| "isClientCall CallNewInClusterClient = True"
| "isClientCall e = False"

fun isConfigCall :: "'k event \<Rightarrow> bool" where
  "isConfigCall (CallOsOpen p) = True"
| "isConfigCall CallUnmarshalNodeGroupOptions = True"
| "isConfigCall e = False"

fun isDriverCall :: "'k event \<Rightarrow> bool" where
  "isDriverCall (CallNewController opts) = True"
| "isDriverCall (CallRunForever b) = True"
| "isDriverCall e = False"

text \<open>The entries of a trace that report a failure: every log call above info level.\<close>

fun isFailureLog :: "'k event \<Rightarrow> bool" where
  "isFailureLog (Log lv f m) = (lv \<noteq> InfoLevel)"
| "isFailureLog e = False"


text \<open>Further readers of a trace: the validator calls, the entries of line 68, the calls of
  \<open>RunForever\<close>.\<close>

fun isValidateCall :: "'k event \<Rightarrow> bool" where
  "isValidateCall (CallValidateNodeGroup ng) = True"
| "isValidateCall e = False"

fun isRegistered :: "'k event \<Rightarrow> bool" where
  "isRegistered (Log lv f (RegisteredWithDrymode b)) = True"
| "isRegistered e = False"

fun isRunForeverCall :: "'k event \<Rightarrow> bool" where
  "isRunForeverCall (CallRunForever b) = True"
| "isRunForeverCall e = False"

text \<open>
  The part of the trace that precedes the validation loop when the log level is accepted and
  the configuration file opens: lines 34 to 52.
\<close>

definition startupTrace :: "('k, 'f) Env \<Rightarrow> Flags \<Rightarrow> 'k event list" where
  "startupTrace env fl =
     [CallSetLevel (loglevel fl), Log InfoLevel NoField (StartingWithLogLevel (loglevel fl))]
     @ fst (resolveClient env fl)
     @ [CallOsOpen (nodegroupConfigFile fl), CallUnmarshalNodeGroupOptions]"

section \<open>The signal watcher\<close>

text \<open>
  Lines 79 to 90. \<open>signalChan\<close> is a channel of capacity 1, \<open>stopChan\<close> is only ever closed.
  The goroutine receives one signal, logs twice, closes \<open>stopChan\<close> and returns; there is no
  loop. Its position is \<open>watcher_pc\<close>. Closing a closed channel panics in Go, which is the
  position \<open>Panicked\<close>. \<open>closes\<close> counts the transitions of \<open>stopChan\<close> from open to
  closed.
\<close>

datatype chan_state = Open | Closed

datatype watcher_pc =
    AwaitSignal
  | GotSignal signal
  | LoggedSignal
  | LoggedStopping
  | Returned
  | Panicked

record coordinator =
  signalChan :: "signal list"
  stopChan :: chan_state
  watcher :: watcher_pc
  watcherLog :: "message list"
  closes :: nat

text \<open>The state when \<open>signal.Notify\<close> has returned and the goroutine is started.\<close>

definition afterNotify :: coordinator where
  "afterNotify =
     \<lparr>signalChan = [], stopChan = Open, watcher = AwaitSignal, watcherLog = [], closes = 0\<rparr>"

text \<open>
  The runtime relays a registered signal with a send that does not block: when the buffer
  of \<open>signalChan\<close> is full, the signal is dropped.
\<close>

definition deliver :: "signal \<Rightarrow> coordinator \<Rightarrow> coordinator" where
  "deliver sg s =
     (if length (signalChan s) < 1 then s\<lparr>signalChan := signalChan s @ [sg]\<rparr> else s)"

text \<open>\<open>close(stopChan)\<close>, line 89, the last statement of the goroutine.\<close>

definition closeStopChan :: "coordinator \<Rightarrow> coordinator" where
  "closeStopChan s =
     (case stopChan s of
        Open \<Rightarrow> s\<lparr>stopChan := Closed, closes := closes s + 1, watcher := Returned\<rparr>
      | Closed \<Rightarrow> s\<lparr>watcher := Panicked\<rparr>)"

text \<open>
  One statement of the goroutine. Blocked on an empty \<open>signalChan\<close>, it does not move.
\<close>

definition watcherStep :: "coordinator \<Rightarrow> coordinator" where
  "watcherStep s =
     (case watcher s of
        AwaitSignal \<Rightarrow>
          (case signalChan s of
             [] \<Rightarrow> s
           | sg # rest \<Rightarrow> s\<lparr>signalChan := rest, watcher := GotSignal sg\<rparr>)
      | GotSignal sg \<Rightarrow>
          s\<lparr>watcherLog := watcherLog s @ [SignalReceived sg], watcher := LoggedSignal\<rparr>
      | LoggedSignal \<Rightarrow>
          s\<lparr>watcherLog := watcherLog s @ [StoppingAutoscalerGracefully],
            watcher := LoggedStopping\<rparr>
      | LoggedStopping \<Rightarrow> closeStopChan s
      | Returned \<Rightarrow> s
      | Panicked \<Rightarrow> s)"

text \<open>
  The two things that can happen, in any order: a registered signal arrives, or the
  scheduler lets the goroutine execute its next statement. A schedule is a list of them.
\<close>

datatype action = Arrives signal | WatcherRuns

fun step :: "action \<Rightarrow> coordinator \<Rightarrow> coordinator" where
  "step (Arrives sg) s = deliver sg s"
| "step WatcherRuns s = watcherStep s"

fun run :: "action list \<Rightarrow> coordinator \<Rightarrow> coordinator" where
  "run [] s = s"
| "run (a # as) s = run as (step a s)"

subsection \<open>Invariants of the watcher\<close>

text \<open>The channel is closed exactly when the goroutine has returned, and it never panics.\<close>

definition coherent :: "coordinator \<Rightarrow> bool" where
  "coherent s =
     (case watcher s of
        Returned \<Rightarrow> stopChan s = Closed \<and> closes s = 1
      | Panicked \<Rightarrow> False
      | pc \<Rightarrow> stopChan s = Open \<and> closes s = 0)"

text \<open>The number of statements the goroutine still has to execute.\<close>

fun remaining :: "watcher_pc \<Rightarrow> nat" where
  "remaining AwaitSignal = 4"
| "remaining (GotSignal sg) = 3"
| "remaining LoggedSignal = 2"
| "remaining LoggedStopping = 1"
| "remaining Returned = 0"
| "remaining Panicked = 0"

text \<open>The goroutine is bound to the signal \<open>sg\<close>: it is the one it will log, or has logged.\<close>

definition handling :: "signal \<Rightarrow> coordinator \<Rightarrow> bool" where
  "handling sg s =
     (stopChan s = (if watcher s = Returned then Closed else Open) \<and>
      (case watcher s of
         AwaitSignal \<Rightarrow> signalChan s = [sg] \<and> watcherLog s = []
       | GotSignal x \<Rightarrow> x = sg \<and> watcherLog s = []
       | LoggedSignal \<Rightarrow> watcherLog s = [SignalReceived sg]
       | LoggedStopping \<Rightarrow> watcherLog s = [SignalReceived sg, StoppingAutoscalerGracefully]
       | Returned \<Rightarrow> watcherLog s = [SignalReceived sg, StoppingAutoscalerGracefully]
       | Panicked \<Rightarrow> False))"

section \<open>Concrete configurations\<close>

text \<open>
  Modelled from the spec: \<open>controller.ValidateNodeGroup\<close> is in pkg/controller, which is
  not part of the visible source. The spec (section 4.3) names two rules, checked
  independently of each other: the name is not empty, and the maximum size is not below
  the minimum size. This instance is used for the concrete configurations only; every
  general theorem below holds for any validator.
\<close>

definition ValidateNodeGroup_spec :: "NodeGroupOptions \<Rightarrow> go_error list" where
  "ValidateNodeGroup_spec nodegroup =
     (if length (Name nodegroup) > 0 then [] else [''name cannot be empty''])
     @ (if MinNodes nodegroup \<le> MaxNodes nodegroup then []
        else [''max size is less than min size''])"

text \<open>
  An environment in which the file \<open>nodegroups.yaml\<close> exists and decodes to the given
  groups, the credentials file \<open>kube.conf\<close> is readable, and in-cluster credentials are
  present. Client handles are strings that tell which constructor made them.
\<close>

definition clusterEnv :: "NodeGroupOptions list \<Rightarrow> (string, string) Env" where
  "clusterEnv groups =
     \<lparr>NewOutOfClusterClient = (\<lambda>p. if p = ''kube.conf'' then Some ''out-of-cluster'' else None),
      NewInClusterClient = Some ''in-cluster'',
      os_Open = (\<lambda>p. if p = ''nodegroups.yaml'' then Inr p else Inl ''no such file''),
      UnmarshalNodeGroupOptions = (\<lambda>f. Inr groups),
      ValidateNodeGroup = ValidateNodeGroup_spec\<rparr>"

text \<open>The same environment with a configuration file that does not decode.\<close>

definition undecodableEnv :: "(string, string) Env" where
  "undecodableEnv = (clusterEnv [])\<lparr>UnmarshalNodeGroupOptions := (\<lambda>f. Inl ''yaml: bad input'')\<rparr>"

text \<open>The default flags, with \<open>--nodegroups nodegroups.yaml\<close>.\<close>

definition defaultFlags :: Flags where
  "defaultFlags =
     \<lparr>loglevel = 4, addr = '':8080'', scanInterval = 60000000000,
      kubeConfigFile = Some [], nodegroupConfigFile = ''nodegroups.yaml'', drymode = False\<rparr>"

definition poolA :: NodeGroupOptions where
  "poolA = \<lparr>Name = ''pool-a'', DryMode = False, MinNodes = 1, MaxNodes = 10\<rparr>"

text \<open>Scenario B of the spec: \<open>pool-b\<close> has a maximum size below its minimum size.\<close>

definition poolB :: NodeGroupOptions where
  "poolB = \<lparr>Name = ''pool-b'', DryMode = False, MinNodes = 5, MaxNodes = 2\<rparr>"

definition poolC :: NodeGroupOptions where
  "poolC = \<lparr>Name = ''pool-c'', DryMode = True, MinNodes = 7, MaxNodes = 3\<rparr>"

text \<open>A second, different group that also calls itself \<open>pool-a\<close>.\<close>

definition poolA2 :: NodeGroupOptions where
  "poolA2 = \<lparr>Name = ''pool-a'', DryMode = True, MinNodes = 0, MaxNodes = 3\<rparr>"

lemmas scenario_defs =
  clusterEnv_def undecodableEnv_def defaultFlags_def poolA_def poolB_def poolC_def poolA2_def
  ValidateNodeGroup_spec_def

lemmas main_defs =
  main_def loadAndRun_def resolveClient_def launch_def reportPass_def reportFailure_def

section \<open>Properties of the start-up\<close>

subsection \<open>The validation loop\<close>

lemma no_errors_iff: "(\<Sum>ng\<leftarrow>ngs. length (validate ng)) = 0 \<longleftrightarrow> (\<forall>ng\<in>set ngs. validate ng = [])"
  by (induction ngs) auto

lemma validateLoop_pass:
  "\<forall>ng\<in>set ngs. validate ng = [] \<Longrightarrow>
   validateLoop validate fl ngs =
     (concat (map (\<lambda>ng. CallValidateNodeGroup ng # reportPass fl ng) ngs), None)"
  by (induction ngs) auto


lemma validateLoop_result:
  "snd (validateLoop validate fl ngs) =
     (if \<forall>ng\<in>set ngs. validate ng = [] then None else Some (Exit 1))"
  by (induction ngs) (simp_all add: Let_def case_prod_beta)

lemma validateLoop_fails:
  "\<exists>ng\<in>set ngs. validate ng \<noteq> [] \<Longrightarrow> snd (validateLoop validate fl ngs) = Some (Exit 1)"
  by (simp add: validateLoop_result)

lemma reportPass_quiet:
  "filter isDriverCall (reportPass fl ng) = []"
  "filter isClientCall (reportPass fl ng) = []"
  "filter isConfigCall (reportPass fl ng) = []"
  "filter isFailureLog (reportPass fl ng) = []"
  by (simp_all add: reportPass_def)

lemma reportFailure_quiet:
  "filter isDriverCall (reportFailure fl ng errs) = []"
  "filter isClientCall (reportFailure fl ng errs) = []"
  "filter isConfigCall (reportFailure fl ng errs) = []"
  by (induction errs) (simp_all add: reportFailure_def)


lemma validateLoop_quiet:
  "filter isDriverCall (fst (validateLoop validate fl ngs)) = []"
  "filter isClientCall (fst (validateLoop validate fl ngs)) = []"
  "filter isConfigCall (fst (validateLoop validate fl ngs)) = []"
  by (induction ngs) (simp_all add: Let_def case_prod_beta reportPass_quiet reportFailure_quiet)

lemma resolveClient_quiet:
  "filter isDriverCall (fst (resolveClient env fl)) = []"
  "filter isConfigCall (fst (resolveClient env fl)) = []"
  "filter isFailureLog (fst (resolveClient env fl)) = []"
  by (simp_all add: resolveClient_def)

lemma launch_calls:
  "filter isDriverCall (launch fl k ngs) =
     [CallNewController \<lparr>ScanInterval = scanInterval fl, K8SClient = k, NodeGroups = ngs,
                         OptsDryMode = drymode fl\<rparr>, CallRunForever True]"
  "filter isClientCall (launch fl k ngs) = []"
  "filter isConfigCall (launch fl k ngs) = []"
  "filter isFailureLog (launch fl k ngs) = []"
  by (simp_all add: launch_def)

lemma startupTrace_quiet:
  "filter isDriverCall (startupTrace env fl) = []"
  "filter isFailureLog (startupTrace env fl) = []"
  by (simp_all add: startupTrace_def resolveClient_quiet)

lemma main_validation_failed:
  fixes env :: "('k, 'f) Env"
  assumes "0 \<le> loglevel fl" "loglevel fl \<le> 5"
    and "snd (resolveClient env fl) = Some k"
    and "os_Open env (nodegroupConfigFile fl) = Inr f"
    and "UnmarshalNodeGroupOptions env f = Inr ngs"
    and "\<exists>ng\<in>set ngs. ValidateNodeGroup env ng \<noteq> []"
  shows "main env fl =
           (startupTrace env fl @ fst (validateLoop (ValidateNodeGroup env) fl ngs), Exit 1)"
proof -
  have "snd (validateLoop (ValidateNodeGroup env) fl ngs :: 'k event list \<times> outcome option)
          = Some (Exit 1)"
    using assms(6) by (rule validateLoop_fails)
  then show ?thesis
    using assms(1-5)
    by (cases "resolveClient env fl";
        cases "validateLoop (ValidateNodeGroup env) fl ngs :: 'k event list \<times> outcome option")
       (simp add: main_def loadAndRun_def startupTrace_def)
qed

lemma main_validation_passed:
  fixes env :: "('k, 'f) Env"
  assumes "0 \<le> loglevel fl" "loglevel fl \<le> 5"
    and "snd (resolveClient env fl) = Some k"
    and "os_Open env (nodegroupConfigFile fl) = Inr f"
    and "UnmarshalNodeGroupOptions env f = Inr ngs"
    and "\<forall>ng\<in>set ngs. ValidateNodeGroup env ng = []"
  shows "main env fl =
           (startupTrace env fl
            @ concat (map (\<lambda>ng. CallValidateNodeGroup ng # reportPass fl ng) ngs)
            @ launch fl k ngs, InRunForever)"
proof -
  have "validateLoop (ValidateNodeGroup env) fl ngs =
          (concat (map (\<lambda>ng. CallValidateNodeGroup ng # reportPass fl ng) ngs)
             :: 'k event list, None)"
    using assms(6) by (rule validateLoop_pass)
  then show ?thesis
    using assms(1-5)
    by (cases "resolveClient env fl") (simp add: main_def loadAndRun_def startupTrace_def)
qed

text \<open>
  C2. When the decoded sequence of node groups holds at least one group with a nonzero
  number of validation errors, the start-up ends in the fatal exit \<open>os.Exit(1)\<close> and the
  trace holds no call of \<open>controller.NewController\<close> or \<open>RunForever\<close>: no group is
  activated.
\<close>

theorem invalid_group_aborts_startup:
  assumes "0 \<le> loglevel fl" "loglevel fl \<le> 5"
    and "snd (resolveClient env fl) = Some k"
    and "os_Open env (nodegroupConfigFile fl) = Inr f"
    and "UnmarshalNodeGroupOptions env f = Inr ngs"
    and "\<exists>ng\<in>set ngs. length (ValidateNodeGroup env ng) \<noteq> 0"
  shows "snd (main env fl) = Exit 1 \<and> filter isDriverCall (fst (main env fl)) = []"
proof -
  have "\<exists>ng\<in>set ngs. ValidateNodeGroup env ng \<noteq> []"
    using assms(6) by simp
  then show ?thesis
    using main_validation_failed [OF assms(1-5)]
    by (simp add: startupTrace_quiet validateLoop_quiet)
qed

theorem invalid_group_aborts_startup_witness:
  "snd (resolveClient (clusterEnv [poolA, poolB]) defaultFlags) = Some ''in-cluster''
   \<and> UnmarshalNodeGroupOptions (clusterEnv [poolA, poolB]) ''nodegroups.yaml'' = Inr [poolA, poolB]
   \<and> ValidateNodeGroup (clusterEnv [poolA, poolB]) poolA = []
   \<and> ValidateNodeGroup (clusterEnv [poolA, poolB]) poolB = [''max size is less than min size'']
   \<and> snd (main (clusterEnv [poolA, poolB]) defaultFlags) = Exit 1
   \<and> filter isDriverCall (fst (main (clusterEnv [poolA, poolB]) defaultFlags)) = []"
proof -
  let ?env = "clusterEnv [poolA, poolB]"
  have h1: "0 \<le> loglevel defaultFlags" and h2: "loglevel defaultFlags \<le> 5"
    by (simp_all add: scenario_defs)
  have h3: "snd (resolveClient ?env defaultFlags) = Some ''in-cluster''"
    by (simp add: resolveClient_def scenario_defs)
  have h4: "os_Open ?env (nodegroupConfigFile defaultFlags) = Inr ''nodegroups.yaml''"
    by (simp add: scenario_defs)
  have h5: "UnmarshalNodeGroupOptions ?env ''nodegroups.yaml'' = Inr [poolA, poolB]"
    by (simp add: scenario_defs)
  have va: "ValidateNodeGroup ?env poolA = []"
    and vb: "ValidateNodeGroup ?env poolB = [''max size is less than min size'']"
    by (simp_all add: scenario_defs)
  have h6: "\<exists>ng\<in>set [poolA, poolB]. length (ValidateNodeGroup ?env ng) \<noteq> 0"
    using vb by simp
  show ?thesis
    using invalid_group_aborts_startup [OF h1 h2 h3 h4 h5 h6] h3 h5 va vb by simp
qed

text \<open>
  C3. When the total number of validation errors over the decoded sequence is zero, the
  driver is invoked with exactly that sequence: the only driver calls of the trace are
  \<open>NewController\<close>, whose options carry the decoded sequence in the field \<open>NodeGroups\<close>,
  unchanged and in the same order, and \<open>RunForever(true)\<close>.
\<close>

theorem valid_groups_reach_driver_verbatim:
  assumes "0 \<le> loglevel fl" "loglevel fl \<le> 5"
    and "snd (resolveClient env fl) = Some k"
    and "os_Open env (nodegroupConfigFile fl) = Inr f"
    and "UnmarshalNodeGroupOptions env f = Inr ngs"
    and "(\<Sum>ng\<leftarrow>ngs. length (ValidateNodeGroup env ng)) = 0"
  shows "snd (main env fl) = InRunForever
     \<and> filter isDriverCall (fst (main env fl)) =
         [CallNewController \<lparr>ScanInterval = scanInterval fl, K8SClient = k, NodeGroups = ngs,
                             OptsDryMode = drymode fl\<rparr>,
          CallRunForever True]"
proof -
  have ok: "\<forall>ng\<in>set ngs. ValidateNodeGroup env ng = []"
    using assms(6) by (simp add: no_errors_iff)
  have q: "filter isDriverCall
             (concat (map (\<lambda>ng. CallValidateNodeGroup ng # reportPass fl ng) ngs)) = []"
    by (induction ngs) (simp_all add: reportPass_quiet)
  show ?thesis
    using main_validation_passed [OF assms(1-5) ok] q
    by (simp add: startupTrace_quiet launch_calls)
qed

theorem valid_groups_reach_driver_verbatim_witness:
  "snd (resolveClient (clusterEnv [poolA, poolA2]) defaultFlags) = Some ''in-cluster''
   \<and> UnmarshalNodeGroupOptions (clusterEnv [poolA, poolA2]) ''nodegroups.yaml'' = Inr [poolA, poolA2]
   \<and> (\<Sum>ng\<leftarrow>[poolA, poolA2]. length (ValidateNodeGroup (clusterEnv [poolA, poolA2]) ng)) = 0
   \<and> snd (main (clusterEnv [poolA, poolA2]) defaultFlags) = InRunForever
   \<and> filter isDriverCall (fst (main (clusterEnv [poolA, poolA2]) defaultFlags)) =
       [CallNewController \<lparr>ScanInterval = 60000000000, K8SClient = ''in-cluster'',
                           NodeGroups = [poolA, poolA2], OptsDryMode = False\<rparr>,
        CallRunForever True]"
proof -
  let ?env = "clusterEnv [poolA, poolA2]"
  have h1: "0 \<le> loglevel defaultFlags" and h2: "loglevel defaultFlags \<le> 5"
    by (simp_all add: scenario_defs)
  have h3: "snd (resolveClient ?env defaultFlags) = Some ''in-cluster''"
    by (simp add: resolveClient_def scenario_defs)
  have h4: "os_Open ?env (nodegroupConfigFile defaultFlags) = Inr ''nodegroups.yaml''"
    by (simp add: scenario_defs)
  have h5: "UnmarshalNodeGroupOptions ?env ''nodegroups.yaml'' = Inr [poolA, poolA2]"
    by (simp add: scenario_defs)
  have h6: "(\<Sum>ng\<leftarrow>[poolA, poolA2]. length (ValidateNodeGroup ?env ng)) = 0"
    by (simp add: scenario_defs)
  have fl: "scanInterval defaultFlags = 60000000000" "drymode defaultFlags = False"
    by (simp_all add: scenario_defs)
  show ?thesis
    using valid_groups_reach_driver_verbatim [OF h1 h2 h3 h4 h5 h6] h3 h5 h6 fl by simp
qed

lemma startupTrace_quiet2:
  "filter isValidateCall (startupTrace env fl) = []"
  "filter isRegistered (startupTrace env fl) = []"
  "filter isRunForeverCall (startupTrace env fl) = []"
  "filter isConfigCall (startupTrace env fl) =
     [CallOsOpen (nodegroupConfigFile fl), CallUnmarshalNodeGroupOptions]"
  by (simp_all add: startupTrace_def resolveClient_def)

lemma startupTrace_client:
  "filter isClientCall (startupTrace env fl) = filter isClientCall (fst (resolveClient env fl))"
  by (simp add: startupTrace_def)

lemma reportFailure_quiet2:
  "filter isValidateCall (reportFailure fl ng errs) = []"
  "filter isRegistered (reportFailure fl ng errs) = []"
  "filter isRunForeverCall (reportFailure fl ng errs) = []"
  by (induction errs) (simp_all add: reportFailure_def)

lemma passes_quiet:
  "filter isDriverCall (concat (map (\<lambda>ng. CallValidateNodeGroup ng # reportPass fl ng) ngs)) = []"
  "filter isClientCall (concat (map (\<lambda>ng. CallValidateNodeGroup ng # reportPass fl ng) ngs)) = []"
  "filter isConfigCall (concat (map (\<lambda>ng. CallValidateNodeGroup ng # reportPass fl ng) ngs)) = []"
  "filter isFailureLog (concat (map (\<lambda>ng. CallValidateNodeGroup ng # reportPass fl ng) ngs)) = []"
  "filter isRunForeverCall (concat (map (\<lambda>ng. CallValidateNodeGroup ng # reportPass fl ng) ngs)) = []"
  by (induction ngs) (simp_all add: reportPass_def)



lemma launch_calls2:
  "filter isValidateCall (launch fl k ngs) = []"
  "filter isRegistered (launch fl k ngs) = []"
  "filter isRunForeverCall (launch fl k ngs) = [CallRunForever True]"
  by (simp_all add: launch_def)

lemma validateLoop_quiet2:
  "filter isRunForeverCall (fst (validateLoop validate fl ngs)) = []"
  by (induction ngs) (simp_all add: Let_def case_prod_beta reportPass_def reportFailure_quiet2)


lemma main_open_failed:
  assumes "0 \<le> loglevel fl" "loglevel fl \<le> 5"
    and "snd (resolveClient env fl) = Some k"
    and "os_Open env (nodegroupConfigFile fl) = Inl err"
  shows "main env fl =
           ([CallSetLevel (loglevel fl), Log InfoLevel NoField (StartingWithLogLevel (loglevel fl))]
            @ fst (resolveClient env fl)
            @ [CallOsOpen (nodegroupConfigFile fl),
               Log FatalLevel NoField (FailedToOpenConfigFile err)], Exit 1)"
  using assms by (cases "resolveClient env fl") (simp add: main_def loadAndRun_def)

lemma main_decode_failed:
  assumes "0 \<le> loglevel fl" "loglevel fl \<le> 5"
    and "snd (resolveClient env fl) = Some k"
    and "os_Open env (nodegroupConfigFile fl) = Inr f"
    and "UnmarshalNodeGroupOptions env f = Inl err"
  shows "main env fl =
           (startupTrace env fl @ [Log FatalLevel NoField (FailedToDecodeConfigFile err)], Exit 1)"
  using assms
  by (cases "resolveClient env fl") (simp add: main_def loadAndRun_def startupTrace_def)

lemma main_client_failed:
  assumes "0 \<le> loglevel fl" "loglevel fl \<le> 5"
    and "snd (resolveClient env fl) = None"
  shows "main env fl =
           ([CallSetLevel (loglevel fl), Log InfoLevel NoField (StartingWithLogLevel (loglevel fl))]
            @ fst (resolveClient env fl), ClientFailed)"
  using assms by (cases "resolveClient env fl") (simp add: main_def)




text \<open>
  C7, as the code has it. The loop validates each group on its own and never compares
  names: a sequence in which two groups have the same name and every group is valid on
  its own is logged without any failure entry and handed to the driver unchanged.
\<close>

theorem duplicate_names_pass_validation:
  assumes "0 \<le> loglevel fl" "loglevel fl \<le> 5"
    and "snd (resolveClient env fl) = Some k"
    and "os_Open env (nodegroupConfigFile fl) = Inr f"
    and "UnmarshalNodeGroupOptions env f = Inr ngs"
    and "\<forall>ng\<in>set ngs. ValidateNodeGroup env ng = []"
    and "\<not> distinct (map Name ngs)"
  shows "snd (main env fl) = InRunForever
     \<and> filter isFailureLog (fst (main env fl)) = []
     \<and> filter isDriverCall (fst (main env fl)) =
         [CallNewController \<lparr>ScanInterval = scanInterval fl, K8SClient = k, NodeGroups = ngs,
                             OptsDryMode = drymode fl\<rparr>,
          CallRunForever True]"
  unfolding main_validation_passed [OF assms(1-6)]
  by (simp add: startupTrace_quiet passes_quiet launch_calls)

text \<open>
  C7 as stated fails. \<open>poolA\<close> and \<open>poolA2\<close> are both named \<open>pool-a\<close>; no error is
  reported and the driver is invoked with both.
\<close>

theorem duplicate_names_reach_driver:
  "Name poolA = Name poolA2
   \<and> \<not> distinct (map Name [poolA, poolA2])
   \<and> UnmarshalNodeGroupOptions (clusterEnv [poolA, poolA2]) ''nodegroups.yaml'' = Inr [poolA, poolA2]
   \<and> snd (main (clusterEnv [poolA, poolA2]) defaultFlags) = InRunForever
   \<and> filter isFailureLog (fst (main (clusterEnv [poolA, poolA2]) defaultFlags)) = []
   \<and> filter isDriverCall (fst (main (clusterEnv [poolA, poolA2]) defaultFlags)) =
       [CallNewController \<lparr>ScanInterval = 60000000000, K8SClient = ''in-cluster'',
                           NodeGroups = [poolA, poolA2], OptsDryMode = False\<rparr>,
        CallRunForever True]"
  by (simp add: main_defs scenario_defs)

theorem duplicate_names_pass_validation_witness:
  "\<not> distinct (map Name [poolA, poolA, poolA2])
   \<and> ValidateNodeGroup (clusterEnv [poolA, poolA, poolA2]) poolA = []
   \<and> ValidateNodeGroup (clusterEnv [poolA, poolA, poolA2]) poolA2 = []
   \<and> snd (main (clusterEnv [poolA, poolA, poolA2]) defaultFlags) = InRunForever
   \<and> filter isDriverCall (fst (main (clusterEnv [poolA, poolA, poolA2]) defaultFlags)) =
       [CallNewController \<lparr>ScanInterval = 60000000000, K8SClient = ''in-cluster'',
                           NodeGroups = [poolA, poolA, poolA2], OptsDryMode = False\<rparr>,
        CallRunForever True]"
proof -
  let ?env = "clusterEnv [poolA, poolA, poolA2]"
  have h1: "0 \<le> loglevel defaultFlags" and h2: "loglevel defaultFlags \<le> 5"
    by (simp_all add: scenario_defs)
  have h3: "snd (resolveClient ?env defaultFlags) = Some ''in-cluster''"
    by (simp add: resolveClient_def scenario_defs)
  have h4: "os_Open ?env (nodegroupConfigFile defaultFlags) = Inr ''nodegroups.yaml''"
    by (simp add: scenario_defs)
  have h5: "UnmarshalNodeGroupOptions ?env ''nodegroups.yaml'' = Inr [poolA, poolA, poolA2]"
    by (simp add: scenario_defs)
  have h6: "\<forall>ng\<in>set [poolA, poolA, poolA2]. ValidateNodeGroup ?env ng = []"
    by (simp add: scenario_defs)
  have h7: "\<not> distinct (map Name [poolA, poolA, poolA2])"
    by simp
  have fl: "scanInterval defaultFlags = 60000000000" "drymode defaultFlags = False"
    by (simp_all add: scenario_defs)
  show ?thesis
    using duplicate_names_pass_validation [OF h1 h2 h3 h4 h5 h6 h7] h6 h7 fl by simp
qed

text \<open>
  C8. When the configuration file cannot be opened, or opens and does not decode, the
  start-up ends in the fatal exit \<open>os.Exit(1)\<close>: the file is opened once and decoded at
  most once (no retry), no group is validated (nothing is accepted in part), and the
  driver is never called.
\<close>

theorem unreadable_config_aborts_startup:
  assumes "0 \<le> loglevel fl" "loglevel fl \<le> 5"
    and "snd (resolveClient env fl) = Some k"
    and "(\<exists>err. os_Open env (nodegroupConfigFile fl) = Inl err)
         \<or> (\<exists>f err. os_Open env (nodegroupConfigFile fl) = Inr f
                    \<and> UnmarshalNodeGroupOptions env f = Inl err)"
  shows "snd (main env fl) = Exit 1
     \<and> filter isDriverCall (fst (main env fl)) = []
     \<and> filter isValidateCall (fst (main env fl)) = []
     \<and> filter isConfigCall (fst (main env fl)) =
         (case os_Open env (nodegroupConfigFile fl) of
            Inl err \<Rightarrow> [CallOsOpen (nodegroupConfigFile fl)]
          | Inr f \<Rightarrow> [CallOsOpen (nodegroupConfigFile fl), CallUnmarshalNodeGroupOptions])"
  using assms(4)
proof (elim disjE exE conjE)
  fix err
  assume o: "os_Open env (nodegroupConfigFile fl) = Inl err"
  show ?thesis
    unfolding main_open_failed [OF assms(1-3) o]
    by (simp add: o resolveClient_def)
next
  fix f err
  assume o: "os_Open env (nodegroupConfigFile fl) = Inr f"
    and u: "UnmarshalNodeGroupOptions env f = Inl err"
  show ?thesis
    unfolding main_decode_failed [OF assms(1-3) o u]
    by (simp add: o startupTrace_quiet startupTrace_quiet2)
qed

theorem unreadable_config_aborts_startup_witness:
  "os_Open undecodableEnv (nodegroupConfigFile defaultFlags) = Inr ''nodegroups.yaml''
   \<and> UnmarshalNodeGroupOptions undecodableEnv ''nodegroups.yaml'' = Inl ''yaml: bad input''
   \<and> os_Open undecodableEnv (nodegroupConfigFile (defaultFlags\<lparr>nodegroupConfigFile := ''missing.yaml''\<rparr>))
       = Inl ''no such file''
   \<and> snd (main undecodableEnv defaultFlags) = Exit 1
   \<and> filter isDriverCall (fst (main undecodableEnv defaultFlags)) = []
   \<and> filter isConfigCall (fst (main undecodableEnv defaultFlags)) =
       [CallOsOpen ''nodegroups.yaml'', CallUnmarshalNodeGroupOptions]
   \<and> snd (main undecodableEnv (defaultFlags\<lparr>nodegroupConfigFile := ''missing.yaml''\<rparr>)) = Exit 1
   \<and> filter isConfigCall
        (fst (main undecodableEnv (defaultFlags\<lparr>nodegroupConfigFile := ''missing.yaml''\<rparr>))) =
       [CallOsOpen ''missing.yaml'']"
proof -
  let ?fl = "defaultFlags\<lparr>nodegroupConfigFile := ''missing.yaml''\<rparr>"
  have h1: "0 \<le> loglevel defaultFlags" and h2: "loglevel defaultFlags \<le> 5"
    and g1: "0 \<le> loglevel ?fl" and g2: "loglevel ?fl \<le> 5"
    by (simp_all add: scenario_defs)
  have h3: "snd (resolveClient undecodableEnv defaultFlags) = Some ''in-cluster''"
    and g3: "snd (resolveClient undecodableEnv ?fl) = Some ''in-cluster''"
    by (simp_all add: resolveClient_def scenario_defs)
  have o: "os_Open undecodableEnv (nodegroupConfigFile defaultFlags) = Inr ''nodegroups.yaml''"
    and u: "UnmarshalNodeGroupOptions undecodableEnv ''nodegroups.yaml'' = Inl ''yaml: bad input''"
    and m: "os_Open undecodableEnv (nodegroupConfigFile ?fl) = Inl ''no such file''"
    by (simp_all add: scenario_defs)
  have h4: "(\<exists>err. os_Open undecodableEnv (nodegroupConfigFile defaultFlags) = Inl err)
         \<or> (\<exists>f err. os_Open undecodableEnv (nodegroupConfigFile defaultFlags) = Inr f
                    \<and> UnmarshalNodeGroupOptions undecodableEnv f = Inl err)"
    using o u by simp
  have g4: "(\<exists>err. os_Open undecodableEnv (nodegroupConfigFile ?fl) = Inl err)
         \<or> (\<exists>f err. os_Open undecodableEnv (nodegroupConfigFile ?fl) = Inr f
                    \<and> UnmarshalNodeGroupOptions undecodableEnv f = Inl err)"
    using m by simp
  have n: "nodegroupConfigFile defaultFlags = ''nodegroups.yaml''"
    "nodegroupConfigFile ?fl = ''missing.yaml''"
    by (simp_all add: scenario_defs)
  show ?thesis
    using unreadable_config_aborts_startup [OF h1 h2 h3 h4]
      unreadable_config_aborts_startup [OF g1 g2 g3 g4] o u m n
    by simp
qed

lemma loadAndRun_no_client:
  fixes env :: "('k, 'f) Env"
  shows "filter isClientCall (fst (loadAndRun env fl k)) = []"
proof (cases "os_Open env (nodegroupConfigFile fl)")
  case (Inl err)
  then show ?thesis by (simp add: loadAndRun_def)
next
  case opened: (Inr f)
  show ?thesis
  proof (cases "UnmarshalNodeGroupOptions env f")
    case (Inl err)
    with opened show ?thesis by (simp add: loadAndRun_def)
  next
    case (Inr ngs)
    have "filter isClientCall
            (fst (validateLoop (ValidateNodeGroup env) fl ngs :: 'k event list \<times> outcome option))
          = []"
      by (rule validateLoop_quiet)
    with opened Inr show ?thesis
      by (cases "validateLoop (ValidateNodeGroup env) fl ngs :: 'k event list \<times> outcome option")
         (simp add: loadAndRun_def launch_calls split: option.splits)
  qed
qed

lemma loadAndRun_run_forever:
  fixes env :: "('k, 'f) Env"
  shows "filter isRunForeverCall (fst (loadAndRun env fl k)) =
           (if snd (loadAndRun env fl k) = InRunForever then [CallRunForever True] else [])"
proof (cases "os_Open env (nodegroupConfigFile fl)")
  case (Inl err)
  then show ?thesis by (simp add: loadAndRun_def)
next
  case opened: (Inr f)
  show ?thesis
  proof (cases "UnmarshalNodeGroupOptions env f")
    case (Inl err)
    with opened show ?thesis by (simp add: loadAndRun_def)
  next
    case (Inr ngs)
    have q: "filter isRunForeverCall
            (fst (validateLoop (ValidateNodeGroup env) fl ngs :: 'k event list \<times> outcome option))
          = []"
      by (rule validateLoop_quiet2)
    have r: "snd (validateLoop (ValidateNodeGroup env) fl ngs :: 'k event list \<times> outcome option)
               \<noteq> Some InRunForever"
      by (simp add: validateLoop_result)
    from opened Inr q r show ?thesis
      by (cases "validateLoop (ValidateNodeGroup env) fl ngs :: 'k event list \<times> outcome option")
         (auto simp: loadAndRun_def launch_calls2 split: option.splits)
  qed
qed

lemma main_client_calls:
  assumes "0 \<le> loglevel fl" "loglevel fl \<le> 5"
  shows "filter isClientCall (fst (main env fl)) = filter isClientCall (fst (resolveClient env fl))"
proof (cases "resolveClient env fl")
  case (Pair tc c)
  show ?thesis
  proof (cases c)
    case None
    with Pair assms show ?thesis by (simp add: main_def)
  next
    case (Some k)
    with Pair assms loadAndRun_no_client [of env fl k] show ?thesis
      by (simp add: main_def case_prod_beta)
  qed
qed

text \<open>
  C6. Once the log level is accepted, \<open>main\<close> calls exactly one client constructor, and
  which one depends on the kubeconfig path alone: \<open>NewOutOfClusterClient\<close> with the path
  when the path is present and not empty, \<open>NewInClusterClient\<close> when it is absent or
  empty. The handle is the result of that constructor.
\<close>

theorem client_mode_chosen_by_kubeconfig:
  assumes "0 \<le> loglevel fl" "loglevel fl \<le> 5"
  shows "(\<forall>p. kubeConfigFile fl = Some p \<and> p \<noteq> [] \<longrightarrow>
            filter isClientCall (fst (main env fl)) = [CallNewOutOfClusterClient p]
            \<and> snd (resolveClient env fl) = NewOutOfClusterClient env p)
       \<and> (kubeConfigFile fl = None \<or> kubeConfigFile fl = Some [] \<longrightarrow>
            filter isClientCall (fst (main env fl)) = [CallNewInClusterClient]
            \<and> snd (resolveClient env fl) = NewInClusterClient env)"
  unfolding main_client_calls [OF assms]
  by (auto simp: resolveClient_def)

theorem client_mode_chosen_by_kubeconfig_witness:
  "kubeConfigFile (defaultFlags\<lparr>kubeConfigFile := Some ''kube.conf''\<rparr>) = Some ''kube.conf''
   \<and> filter isClientCall
        (fst (main (clusterEnv [poolA]) (defaultFlags\<lparr>kubeConfigFile := Some ''kube.conf''\<rparr>)))
       = [CallNewOutOfClusterClient ''kube.conf'']
   \<and> kubeConfigFile defaultFlags = Some []
   \<and> filter isClientCall (fst (main (clusterEnv [poolA]) defaultFlags)) = [CallNewInClusterClient]
   \<and> kubeConfigFile (defaultFlags\<lparr>kubeConfigFile := None\<rparr>) = None
   \<and> filter isClientCall
        (fst (main (clusterEnv [poolA]) (defaultFlags\<lparr>kubeConfigFile := None\<rparr>)))
       = [CallNewInClusterClient]"
proof -
  let ?out = "defaultFlags\<lparr>kubeConfigFile := Some ''kube.conf''\<rparr>"
  let ?nil = "defaultFlags\<lparr>kubeConfigFile := None\<rparr>"
  have h: "0 \<le> loglevel defaultFlags" "loglevel defaultFlags \<le> 5"
    and ho: "0 \<le> loglevel ?out" "loglevel ?out \<le> 5"
    and hn: "0 \<le> loglevel ?nil" "loglevel ?nil \<le> 5"
    by (simp_all add: scenario_defs)
  have k: "kubeConfigFile ?out = Some ''kube.conf''" "kubeConfigFile defaultFlags = Some []"
    "kubeConfigFile ?nil = None"
    by (simp_all add: scenario_defs)
  show ?thesis
    using client_mode_chosen_by_kubeconfig [OF ho, of "clusterEnv [poolA]"]
      client_mode_chosen_by_kubeconfig [OF h, of "clusterEnv [poolA]"]
      client_mode_chosen_by_kubeconfig [OF hn, of "clusterEnv [poolA]"] k
    by simp
qed



text \<open>
  C10. The only call of \<open>RunForever\<close> in any trace of \<open>main\<close> has the argument
  \<open>true\<close>: it is there exactly when the start-up reaches the driver, and no trace holds a
  call with \<open>false\<close>.
\<close>

theorem driver_only_run_forever_true:
  "filter isRunForeverCall (fst (main env fl)) =
     (if snd (main env fl) = InRunForever then [CallRunForever True] else [])"
proof (cases "loglevel fl < 0 \<or> loglevel fl > 5")
  case True
  then show ?thesis by (simp add: main_def)
next
  case False
  show ?thesis
  proof (cases "resolveClient env fl")
    case (Pair tc c)
    have q: "filter isRunForeverCall tc = []"
      using Pair by (auto simp: resolveClient_def split: if_splits)
    show ?thesis
    proof (cases c)
      case None
      with Pair False q show ?thesis by (simp add: main_def)
    next
      case (Some k)
      with Pair False q loadAndRun_run_forever [of env fl k] show ?thesis
        by (simp add: main_def case_prod_beta)
    qed
  qed
qed

theorem driver_only_run_forever_true_witness:
  "snd (main (clusterEnv [poolA]) defaultFlags) = InRunForever
   \<and> filter isRunForeverCall (fst (main (clusterEnv [poolA]) defaultFlags)) = [CallRunForever True]
   \<and> snd (main (clusterEnv [poolB]) defaultFlags) = Exit 1
   \<and> filter isRunForeverCall (fst (main (clusterEnv [poolB]) defaultFlags)) = []"
proof -
  have a: "snd (main (clusterEnv [poolA]) defaultFlags) = InRunForever"
    and b: "snd (main (clusterEnv [poolB]) defaultFlags) = Exit 1"
    by (simp_all add: main_defs scenario_defs)
  show ?thesis
    using driver_only_run_forever_true [of "clusterEnv [poolA]" defaultFlags]
      driver_only_run_forever_true [of "clusterEnv [poolB]" defaultFlags] a b
    by simp
qed

text \<open>
  C5. For every log level outside the range 0 to 5, the start-up ends in a fatal exit
  before any credential resolution or configuration loading: the trace is the single
  fatal log entry, so it holds no call of a client constructor, of \<open>os.Open\<close> or of the
  decoder.
\<close>

theorem bad_loglevel_fails_first:
  assumes "loglevel fl < 0 \<or> loglevel fl > 5"
  shows "main env fl = ([Log FatalLevel NoField (InvalidLogLevel (loglevel fl))], Exit 1)
         \<and> filter isClientCall (fst (main env fl)) = []
         \<and> filter isConfigCall (fst (main env fl)) = []"
  using assms by (simp add: main_def)

theorem bad_loglevel_fails_first_witness:
  "(loglevel (defaultFlags\<lparr>loglevel := 6\<rparr>) < 0 \<or> loglevel (defaultFlags\<lparr>loglevel := 6\<rparr>) > 5)
   \<and> main (clusterEnv [poolA]) (defaultFlags\<lparr>loglevel := 6\<rparr>)
       = ([Log FatalLevel NoField (InvalidLogLevel 6)], Exit 1)"
  using bad_loglevel_fails_first [of "defaultFlags\<lparr>loglevel := 6\<rparr>" "clusterEnv [poolA]"]
  by (simp add: defaultFlags_def)

section \<open>Properties of the signal watcher\<close>

lemma run_append: "run (as @ bs) s = run bs (run as s)"
  by (induction as arbitrary: s) simp_all

lemma coherent_step: "coherent s \<Longrightarrow> coherent (step a s)"
  by (cases a)
     (auto simp: coherent_def deliver_def watcherStep_def closeStopChan_def
           split: watcher_pc.splits list.splits chan_state.splits)

lemma coherent_run: "coherent s \<Longrightarrow> coherent (run as s)"
  by (induction as arbitrary: s) (simp_all add: coherent_step)

lemma coherent_afterNotify: "coherent afterNotify"
  by (simp add: coherent_def afterNotify_def)

lemma coherent_facts:
  assumes "coherent s"
  shows "closes s \<le> 1" "watcher s \<noteq> Panicked" "stopChan s = Closed \<longleftrightarrow> closes s = 1"
    "stopChan s = Closed \<longleftrightarrow> watcher s = Returned"
  using assms by (auto simp: coherent_def split: watcher_pc.splits)

lemma returned_step:
  "watcher s = Returned \<Longrightarrow>
   watcher (step a s) = Returned \<and> stopChan (step a s) = stopChan s
   \<and> closes (step a s) = closes s \<and> watcherLog (step a s) = watcherLog s"
  by (cases a) (simp_all add: deliver_def watcherStep_def)

lemma returned_run:
  "watcher s = Returned \<Longrightarrow>
   watcher (run bs s) = Returned \<and> stopChan (run bs s) = stopChan s
   \<and> closes (run bs s) = closes s \<and> watcherLog (run bs s) = watcherLog s"
proof (induction bs arbitrary: s)
  case Nil
  then show ?case by simp
next
  case (Cons a bs)
  from returned_step [OF Cons.prems, of a] Cons.IH [of "step a s"]
  show ?case by simp
qed

lemma idle_run: "set pre \<subseteq> {WatcherRuns} \<Longrightarrow> run pre afterNotify = afterNotify"
  by (induction pre) (auto simp: watcherStep_def afterNotify_def)

lemma handling_deliver: "handling sg s \<Longrightarrow> handling sg (deliver x s)"
  by (auto simp: handling_def deliver_def split: watcher_pc.splits)

lemma remaining_deliver: "remaining (watcher (deliver x s)) = remaining (watcher s)"
  by (simp add: deliver_def)

lemma handling_watcherStep:
  "handling sg s \<Longrightarrow>
   handling sg (watcherStep s) \<and> remaining (watcher (watcherStep s)) = remaining (watcher s) - 1"
  by (auto simp: handling_def watcherStep_def closeStopChan_def
           split: watcher_pc.splits chan_state.splits if_splits)

lemma handling_run:
  "handling sg s \<Longrightarrow> remaining (watcher s) \<le> count_list post WatcherRuns \<Longrightarrow>
   watcher (run post s) = Returned \<and> handling sg (run post s)"
proof (induction post arbitrary: s)
  case Nil
  then show ?case by (cases "watcher s") (simp_all add: handling_def)
next
  case (Cons a post)
  show ?case
  proof (cases a)
    case (Arrives x)
    with Cons.prems Cons.IH [of "deliver x s"] show ?thesis
      by (simp add: handling_deliver remaining_deliver)
  next
    case WatcherRuns
    with Cons.prems handling_watcherStep [of sg s] Cons.IH [of "watcherStep s"] show ?thesis
      by simp
  qed
qed

lemma handling_returned:
  "handling sg s \<Longrightarrow> watcher s = Returned \<Longrightarrow>
   stopChan s = Closed \<and> watcherLog s = [SignalReceived sg, StoppingAutoscalerGracefully]"
  by (simp add: handling_def)

lemma handling_first: "handling sg (deliver sg afterNotify)"
  by (simp add: handling_def deliver_def afterNotify_def)

text \<open>
  C4. From the state after \<open>signal.Notify\<close>, under every schedule of signal arrivals
  and goroutine steps: \<open>stopChan\<close> goes from open to closed at most once and the goroutine
  never panics on a second close; once it is closed, whatever arrives or runs afterwards
  leaves it closed, with the same count of closes, the same log and the goroutine
  returned (a later signal is at most buffered, unread, in \<open>signalChan\<close>); the first signal
  to arrive, once the goroutine has executed its four statements, has closed the channel
  exactly once and is the signal that was logged; with no signal the channel stays open.
\<close>

theorem stop_channel_closed_exactly_once:
  "closes (run as afterNotify) \<le> 1
   \<and> watcher (run as afterNotify) \<noteq> Panicked
   \<and> (stopChan (run as afterNotify) = Closed \<longleftrightarrow> closes (run as afterNotify) = 1)
   \<and> (stopChan (run as afterNotify) = Closed \<longrightarrow>
        stopChan (run (as @ bs) afterNotify) = Closed
        \<and> closes (run (as @ bs) afterNotify) = 1
        \<and> watcher (run (as @ bs) afterNotify) = Returned
        \<and> watcherLog (run (as @ bs) afterNotify) = watcherLog (run as afterNotify))
   \<and> (set pre \<subseteq> {WatcherRuns} \<and> 4 \<le> count_list post WatcherRuns \<longrightarrow>
        stopChan (run (pre @ Arrives sg # post) afterNotify) = Closed
        \<and> closes (run (pre @ Arrives sg # post) afterNotify) = 1
        \<and> watcherLog (run (pre @ Arrives sg # post) afterNotify) =
            [SignalReceived sg, StoppingAutoscalerGracefully])
   \<and> (set pre \<subseteq> {WatcherRuns} \<longrightarrow> stopChan (run pre afterNotify) = Open)"
proof -
  let ?s = "run as afterNotify"
  have c: "coherent ?s"
    by (rule coherent_run [OF coherent_afterNotify])
  note f = coherent_facts [OF c]
  have stable: "stopChan (run (as @ bs) afterNotify) = Closed
        \<and> closes (run (as @ bs) afterNotify) = 1
        \<and> watcher (run (as @ bs) afterNotify) = Returned
        \<and> watcherLog (run (as @ bs) afterNotify) = watcherLog ?s"
    if "stopChan ?s = Closed"
  proof -
    from that f(4) have "watcher ?s = Returned" by simp
    from returned_run [OF this, of bs] that f(3) show ?thesis
      by (simp add: run_append)
  qed
  have first: "stopChan (run (pre @ Arrives sg # post) afterNotify) = Closed
        \<and> closes (run (pre @ Arrives sg # post) afterNotify) = 1
        \<and> watcherLog (run (pre @ Arrives sg # post) afterNotify) =
            [SignalReceived sg, StoppingAutoscalerGracefully]"
    if p: "set pre \<subseteq> {WatcherRuns}" and n: "4 \<le> count_list post WatcherRuns"
  proof -
    let ?t = "run (pre @ Arrives sg # post) afterNotify"
    have e: "?t = run post (deliver sg afterNotify)"
      by (simp add: run_append idle_run [OF p])
    have "remaining (watcher (deliver sg afterNotify)) \<le> count_list post WatcherRuns"
      using n by (simp add: deliver_def afterNotify_def)
    from handling_run [OF handling_first this]
    have r: "watcher ?t = Returned" and h: "handling sg ?t"
      by (simp_all add: e)
    have "coherent ?t"
      by (rule coherent_run [OF coherent_afterNotify])
    from coherent_facts(3) [OF this] handling_returned [OF h r] show ?thesis
      by simp
  qed
  have idle: "stopChan (run pre afterNotify) = Open" if "set pre \<subseteq> {WatcherRuns}"
    using idle_run [OF that] by (simp add: afterNotify_def)
  from f(1,2,3) stable first idle show ?thesis
    by blast
qed

theorem stop_channel_closed_exactly_once_witness:
  "stopChan (run [WatcherRuns, Arrives SIGTERM, WatcherRuns, WatcherRuns, WatcherRuns,
                  WatcherRuns] afterNotify) = Closed
   \<and> run ([WatcherRuns, Arrives SIGTERM, WatcherRuns, WatcherRuns, WatcherRuns, WatcherRuns]
          @ [Arrives SIGINT, WatcherRuns, Arrives SIGTERM, WatcherRuns]) afterNotify
     = \<lparr>signalChan = [SIGINT], stopChan = Closed, watcher = Returned,
        watcherLog = [SignalReceived SIGTERM, StoppingAutoscalerGracefully], closes = 1\<rparr>"
proof -
  let ?as = "[WatcherRuns, Arrives SIGTERM, WatcherRuns, WatcherRuns, WatcherRuns, WatcherRuns]"
  let ?bs = "[Arrives SIGINT, WatcherRuns, Arrives SIGTERM, WatcherRuns]"
  have a: "stopChan (run ?as afterNotify) = Closed"
    by (simp add: afterNotify_def deliver_def watcherStep_def closeStopChan_def)
  have b: "signalChan (run (?as @ ?bs) afterNotify) = [SIGINT]"
    by (simp add: afterNotify_def deliver_def watcherStep_def closeStopChan_def)
  have w: "watcherLog (run ?as afterNotify) = [SignalReceived SIGTERM, StoppingAutoscalerGracefully]"
    by (simp add: afterNotify_def deliver_def watcherStep_def closeStopChan_def)
  have "run (?as @ ?bs) afterNotify =
          \<lparr>signalChan = signalChan (run (?as @ ?bs) afterNotify),
           stopChan = stopChan (run (?as @ ?bs) afterNotify),
           watcher = watcher (run (?as @ ?bs) afterNotify),
           watcherLog = watcherLog (run (?as @ ?bs) afterNotify),
           closes = closes (run (?as @ ?bs) afterNotify)\<rparr>"
    by simp
  then show ?thesis
    using stop_channel_closed_exactly_once [of ?as ?bs "[WatcherRuns]" "tl (tl ?as)" SIGTERM] a b w
    by simp
qed

end
